theory Spec2Isabelle
  imports
    Complex_Main
    "HOL-Library.Char_ord"
    "HOL-Library.Option_ord"
    "HOL-Library.List_Lexorder"
    "HOL-Library.Product_Lexorder"
begin

section \<open>Strings\<close>

text \<open>
  Python's \<^verbatim>\<open>str.replace(old, new)\<close>: the non-overlapping occurrences of \<open>old\<close> are
  replaced from left to right. With an empty \<open>old\<close>, \<open>new\<close> is put before every character
  and at the end. Strings are lists of 8-bit characters here; the decimal digits among
  them are \<open>0\<close> to \<open>9\<close>.
\<close>

fun replace :: "string \<Rightarrow> string \<Rightarrow> string \<Rightarrow> string" where
  "replace old new [] = (if old = [] then new else [])"
| "replace old new (c # cs) =
     (if old = [] then new @ c # replace old new cs
      else if take (length old) (c # cs) = old
        then new @ replace old new (drop (length old - 1) cs)
        else c # replace old new cs)"

definition is_digit :: "char \<Rightarrow> bool" where
  "is_digit c = (c \<in> set ''0123456789'')"

definition digit_val :: "char \<Rightarrow> nat" where
  "digit_val c = of_char c - 48"

text \<open>
  \<^verbatim>\<open>int(s)\<close> on the strings this program gives it (slices of a run of digits):
  a \<^verbatim>\<open>ValueError\<close>, here \<open>None\<close>, when \<open>s\<close> is empty or holds a character that is not
  a digit.
\<close>

definition int_of_str :: "string \<Rightarrow> nat option" where
  "int_of_str s =
     (if s = [] \<or> \<not> list_all is_digit s then None
      else Some (foldl (\<lambda>a c. 10 * a + digit_val c) 0 s))"

section \<open>Asset catalog\<close>

definition AVAILABLE_ASSETS :: "string list" where
  "AVAILABLE_ASSETS = [''LFT'', ''LTN'', ''NTN-C'', ''NTN-B'', ''NTN-B_Principal'', ''NTN-F'']"

definition BASE_URL :: string where
  "BASE_URL = ''https://cdn.tesouro.gov.br/sistemas-internos/apex/producao/sistemas/sistd''"

definition FIRST_YEAR :: int where
  "FIRST_YEAR = 2005"

section \<open>Code normalizer\<close>

definition normalize_asset_code :: "string \<Rightarrow> string" where
  "normalize_asset_code asset_code = replace ''-'' ''_'' (replace '' '' ''_'' asset_code)"

definition denormalize_asset_code :: "string \<Rightarrow> string" where
  "denormalize_asset_code asset_code =
     (let a1 = replace ''NTN_B_Principal'' ''NTN-B Principal'' asset_code;
          a2 = replace ''NTN_F'' ''NTN-F'' a1;
          a3 = replace ''NTN_B'' ''NTN-B'' a2;
          a4 = replace ''NTN_C'' ''NTN-C'' a3
      in replace ''_'' '' '' a4)"

section \<open>Calendar dates\<close>

record date =
  year :: nat
  month :: nat
  day :: nat

datatype error =
    ValueError
  | IndexError
  | RequestException
  | ParseError

definition is_leap :: "nat \<Rightarrow> bool" where
  "is_leap y = (y mod 4 = 0 \<and> (y mod 100 \<noteq> 0 \<or> y mod 400 = 0))"

definition days_in_month :: "nat \<Rightarrow> nat \<Rightarrow> nat" where
  "days_in_month y m =
     (if m = 2 then (if is_leap y then 29 else 28)
      else if m = 4 \<or> m = 6 \<or> m = 9 \<or> m = 11 then 30
      else 31)"

text \<open>
  \<^verbatim>\<open>datetime.date(year, month, day)\<close>: a \<^verbatim>\<open>ValueError\<close> unless the year is in 1..9999,
  the month in 1..12 and the day in 1..the number of days of that month.
\<close>

definition mk_date :: "nat \<Rightarrow> nat \<Rightarrow> nat \<Rightarrow> error + date" where
  "mk_date y m d =
     (if 1 \<le> y \<and> y \<le> 9999 \<and> 1 \<le> m \<and> m \<le> 12 \<and> 1 \<le> d \<and> d \<le> days_in_month y m
      then Inr \<lparr>year = y, month = m, day = d\<rparr>
      else Inl ValueError)"

section \<open>Maturity parser\<close>

text \<open>
  The pattern \<^verbatim>\<open>(\d{6})$\<close> tried at the start of \<open>s\<close>: six digits, then the end of the
  string, which \<^verbatim>\<open>$\<close> also finds just before a newline that ends the string.
  The result is group 1.
\<close>

definition match_at :: "string \<Rightarrow> string option" where
  "match_at s =
     (if 6 \<le> length s \<and> list_all is_digit (take 6 s)
         \<and> (drop 6 s = [] \<or> drop 6 s = [CHR 0x0A])
      then Some (take 6 s) else None)"

text \<open>\<^verbatim>\<open>re.search\<close>: the first position, from the left, where the pattern matches.\<close>

fun re_search :: "string \<Rightarrow> string option" where
  "re_search [] = match_at []"
| "re_search (c # cs) =
     (case match_at (c # cs) of Some g \<Rightarrow> Some g | None \<Rightarrow> re_search cs)"

definition get_maturity_date :: "string \<Rightarrow> date option" where
  "get_maturity_date asset_code =
     (case re_search (replace '' '' [] asset_code) of
        None \<Rightarrow> None
      | Some date_str \<Rightarrow>
          (case int_of_str (take 2 date_str) of
             None \<Rightarrow> None
           | Some d \<Rightarrow>
               (case int_of_str (take 2 (drop 2 date_str)) of
                  None \<Rightarrow> None
                | Some m \<Rightarrow>
                    (case int_of_str (take 2 (drop 4 date_str)) of
                       None \<Rightarrow> None
                     | Some yy \<Rightarrow>
                         (case mk_date (if yy \<le> 50 then yy + 2000 else yy + 1900) m d of
                            Inl e \<Rightarrow> None
                          | Inr dt \<Rightarrow> Some dt)))))"



definition digit_char :: "nat \<Rightarrow> char" where
  "digit_char k = ''0123456789'' ! k"

definition two_digits :: "nat \<Rightarrow> string" where
  "two_digits n = [digit_char (n div 10), digit_char (n mod 10)]"

section \<open>The world outside: file system, network, clock\<close>

text \<open>
  A path is its list of components, so \<^verbatim>\<open>cache_dir / name\<close> appends one component.
  The world holds the regular files with their contents, the directories, the URLs
  requested over the network so far (oldest first) and the calendar year of the clock.
  The operating system is taken to grant every directory creation and every file
  write: permission, disk and path-type failures are outside the model.
\<close>

type_synonym path = "string list"
type_synonym bytes = string

record world =
  files :: "path \<rightharpoonup> bytes"
  dirs :: "path set"
  requests :: "string list"
  current_year :: int

text \<open>\<^verbatim>\<open>Path.mkdir(parents=True, exist_ok=True)\<close>: the directory and all its ancestors.\<close>

definition mkdir_parents :: "path \<Rightarrow> world \<Rightarrow> world" where
  "mkdir_parents p w = w\<lparr>dirs := dirs w \<union> set (map (\<lambda>k. take k p) [1..<Suc (length p)])\<rparr>"

definition exists_path :: "path \<Rightarrow> world \<Rightarrow> bool" where
  "exists_path p w = (files w p \<noteq> None \<or> p \<in> dirs w)"

section \<open>Tables\<close>

text \<open>
  A frame as \<^verbatim>\<open>pandas.read_excel\<close> returns it: a number of columns and the rows, each
  row holding one cell per column. \<^verbatim>\<open>df.empty\<close> holds when there is no row or no column.
\<close>

record 'c frame =
  ncols :: nat
  rows :: "'c list list"

definition empty_frame :: "'c frame \<Rightarrow> bool" where
  "empty_frame df = (rows df = [] \<or> ncols df = 0)"

text \<open>A missing value (\<^verbatim>\<open>NaN\<close>, \<^verbatim>\<open>NaT\<close>, \<^verbatim>\<open>None\<close>) is \<open>None\<close>.\<close>

record 't price_row =
  ref_date :: "'t option"
  yield_bid :: "real option"
  yield_ask :: "real option"
  price_bid :: "real option"
  price_ask :: "real option"

record 't tagged_row = "'t price_row" +
  asset_code :: string

record 't price_record = "'t tagged_row" +
  maturity_date :: "date option"

text \<open>
  The collaborators of the pipeline: the retrying HTTP session (the answer to the
  \<open>k\<close>-th request of the run, after \<^verbatim>\<open>raise_for_status\<close>), the temporary directory, and
  pandas: the sheet names of a workbook, one sheet read with its first row skipped, and
  the coercions \<^verbatim>\<open>to_numeric\<close> and \<^verbatim>\<open>to_datetime\<close> with \<^verbatim>\<open>errors='coerce'\<close>, cell by cell.
\<close>

record ('c, 't) env =
  session_get :: "nat \<Rightarrow> string \<Rightarrow> error + bytes"
  gettempdir :: path
  excel_sheet_names :: "bytes \<Rightarrow> error + string list"
  read_excel :: "bytes \<Rightarrow> string \<Rightarrow> error + 'c frame"
  to_numeric :: "'c \<Rightarrow> real option"
  to_datetime :: "'c \<Rightarrow> 't option"

section \<open>File cache and fetcher\<close>

fun str_nat :: "nat \<Rightarrow> string" where
  "str_nat n = (if n < 10 then [digit_char n] else str_nat (n div 10) @ [digit_char (n mod 10)])"

declare str_nat.simps [simp del]

definition str_int :: "int \<Rightarrow> string" where
  "str_int i = (if i < 0 then ''-'' @ str_nat (nat (- i)) else str_nat (nat i))"

definition asset_folder :: "path \<Rightarrow> string \<Rightarrow> path" where
  "asset_folder cache_dir a = cache_dir @ [normalize_asset_code a]"

definition file_name :: "string \<Rightarrow> int \<Rightarrow> string" where
  "file_name a y = normalize_asset_code a @ ''_'' @ str_int y @ ''.xls''"

definition local_file :: "path \<Rightarrow> string \<Rightarrow> int \<Rightarrow> path" where
  "local_file cache_dir a y = asset_folder cache_dir a @ [file_name a y]"

definition file_url :: "string \<Rightarrow> int \<Rightarrow> string" where
  "file_url a y = BASE_URL @ ''/'' @ str_int y @ ''/'' @ file_name a y"

definition download_file ::
  "('c, 't) env \<Rightarrow> path \<Rightarrow> string \<Rightarrow> int \<Rightarrow> world \<Rightarrow> path option \<times> world" where
  "download_file e cache_dir a y w =
     (let w1 = mkdir_parents (asset_folder cache_dir a) w in
      if exists_path (local_file cache_dir a y) w1 \<and> y \<noteq> current_year w1
      then (Some (local_file cache_dir a y), w1)
      else
        (let w2 = w1\<lparr>requests := requests w1 @ [file_url a y]\<rparr> in
         case session_get e (length (requests w1)) (file_url a y) of
           Inl err \<Rightarrow> (None, w2)
         | Inr content \<Rightarrow>
             (Some (local_file cache_dir a y),
              w2\<lparr>files := (files w2)(local_file cache_dir a y \<mapsto> content)\<rparr>)))"

section \<open>Spreadsheet reader and cleaner\<close>

definition coerce_row :: "('c, 't) env \<Rightarrow> 'c list \<Rightarrow> 't price_row" where
  "coerce_row e r =
     \<lparr>ref_date = to_datetime e (r ! 0),
      yield_bid = to_numeric e (r ! 1),
      yield_ask = to_numeric e (r ! 2),
      price_bid = to_numeric e (r ! 3),
      price_ask = to_numeric e (r ! 4)\<rparr>"

definition has_missing :: "'t price_row \<Rightarrow> bool" where
  "has_missing r =
     (ref_date r = None \<or> yield_bid r = None \<or> yield_ask r = None
      \<or> price_bid r = None \<or> price_ask r = None)"

text \<open>
  An empty frame is returned as it is: it holds no price row. Taking the first five
  columns of a frame with fewer raises \<^verbatim>\<open>IndexError\<close>.
\<close>

definition clean_data :: "('c, 't) env \<Rightarrow> 'c frame \<Rightarrow> error + 't price_row list" where
  "clean_data e df =
     (if empty_frame df then Inr []
      else if ncols df < 5 then Inl IndexError
      else Inr (filter (\<lambda>r. price_bid r \<noteq> Some 0)
                 (filter (\<lambda>r. \<not> has_missing r) (map (coerce_row e) (rows df)))))"

definition tag_row :: "string \<Rightarrow> 't price_row \<Rightarrow> 't tagged_row" where
  "tag_row sheet_name r =
     \<lparr>ref_date = ref_date r, yield_bid = yield_bid r, yield_ask = yield_ask r,
      price_bid = price_bid r, price_ask = price_ask r, asset_code = sheet_name\<rparr>"

text \<open>The loop over the sheets; an exception of any sheet leaves the loop.\<close>

fun process_sheets ::
  "('c, 't) env \<Rightarrow> bytes \<Rightarrow> string list \<Rightarrow> error + 't tagged_row list list" where
  "process_sheets e content [] = Inr []"
| "process_sheets e content (sheet_name # ns) =
     (case read_excel e content sheet_name of
        Inl err \<Rightarrow> Inl err
      | Inr df \<Rightarrow>
          if \<not> empty_frame df then
            (case clean_data e df of
               Inl err \<Rightarrow> Inl err
             | Inr cleaned \<Rightarrow>
                 (case process_sheets e content ns of
                    Inl err \<Rightarrow> Inl err
                  | Inr all_data \<Rightarrow>
                      Inr (if cleaned \<noteq> [] then map (tag_row sheet_name) cleaned # all_data
                           else all_data)))
          else process_sheets e content ns)"

text \<open>Every exception is caught here and answered with the empty frame.\<close>

definition read_excel_file :: "('c, 't) env \<Rightarrow> world \<Rightarrow> path \<Rightarrow> 't tagged_row list" where
  "read_excel_file e w file_path =
     (case files w file_path of
        None \<Rightarrow> []
      | Some content \<Rightarrow>
          (case excel_sheet_names e content of
             Inl err \<Rightarrow> []
           | Inr names \<Rightarrow>
               (case process_sheets e content names of
                  Inl err \<Rightarrow> []
                | Inr all_data \<Rightarrow> concat all_data)))"

section \<open>Pipeline orchestrator\<close>

definition invalid_codes :: "string list \<Rightarrow> string list \<Rightarrow> string list" where
  "invalid_codes catalog asset_codes = filter (\<lambda>code. code \<notin> set catalog) asset_codes"

fun download_years ::
  "('c, 't) env \<Rightarrow> path \<Rightarrow> string \<Rightarrow> int list \<Rightarrow> world \<Rightarrow> path list \<times> world" where
  "download_years e cache_dir a [] w = ([], w)"
| "download_years e cache_dir a (y # ys) w =
     (case download_file e cache_dir a y w of
        (r, w1) \<Rightarrow>
          (case download_years e cache_dir a ys w1 of
             (ps, w2) \<Rightarrow> ((case r of None \<Rightarrow> ps | Some p \<Rightarrow> p # ps), w2)))"

fun download_assets ::
  "('c, 't) env \<Rightarrow> path \<Rightarrow> string list \<Rightarrow> int list \<Rightarrow> world \<Rightarrow> path list \<times> world" where
  "download_assets e cache_dir [] years w = ([], w)"
| "download_assets e cache_dir (a # as) years w =
     (case download_years e cache_dir a years w of
        (ps, w1) \<Rightarrow>
          (case download_assets e cache_dir as years w1 of
             (qs, w2) \<Rightarrow> (ps @ qs, w2)))"

definition finish_row :: "'t tagged_row \<Rightarrow> 't price_record" where
  "finish_row r =
     \<lparr>ref_date = ref_date r, yield_bid = yield_bid r, yield_ask = yield_ask r,
      price_bid = price_bid r, price_ask = price_ask r,
      asset_code = denormalize_asset_code (asset_code r),
      maturity_date = get_maturity_date (denormalize_asset_code (asset_code r))\<rparr>"

text \<open>
  \<^verbatim>\<open>sort_values(['asset_code', 'ref_date'])\<close>: by asset code as Python compares strings
  (character by character, a prefix first), then by date, missing dates last.
\<close>

definition sort_key_of :: "('t::linorder) price_record \<Rightarrow> string \<times> bool \<times> 't option" where
  "sort_key_of r = (asset_code r, ref_date r = None, ref_date r)"

definition sort_values :: "('t::linorder) price_record list \<Rightarrow> 't price_record list" where
  "sort_values rs = sort_key sort_key_of rs"

text \<open>The three parameter adjustments that open \<^verbatim>\<open>get_treasury_data\<close>.\<close>

definition clamp_first_year :: "int \<Rightarrow> int" where
  "clamp_first_year first_year = (if first_year < FIRST_YEAR then FIRST_YEAR else first_year)"

definition default_last_year :: "int option \<Rightarrow> world \<Rightarrow> int" where
  "default_last_year last_year w = (case last_year of None \<Rightarrow> current_year w | Some y \<Rightarrow> y)"

definition default_asset_codes :: "string list option \<Rightarrow> string list" where
  "default_asset_codes asset_codes =
     (case asset_codes of None \<Rightarrow> AVAILABLE_ASSETS | Some cs \<Rightarrow> cs)"

definition get_treasury_data ::
  "('c, 't::linorder) env \<Rightarrow> path \<Rightarrow> string list option \<Rightarrow> int \<Rightarrow> int option \<Rightarrow> world
     \<Rightarrow> (error + 't price_record list) \<times> world" where
  "get_treasury_data e cache_dir asset_codes first_year last_year w =
     (let first_year1 = clamp_first_year first_year;
          last_year1 = default_last_year last_year w;
          asset_codes1 = default_asset_codes asset_codes
      in
      if invalid_codes AVAILABLE_ASSETS asset_codes1 \<noteq> [] then (Inl ValueError, w)
      else
        (case download_assets e cache_dir asset_codes1 [first_year1..last_year1] w of
           (all_files, w1) \<Rightarrow>
             if all_files = [] then (Inr [], w1)
             else
               (let all_data = filter (\<lambda>df. df \<noteq> []) (map (read_excel_file e w1) all_files)
                in
                if all_data = [] then (Inr [], w1)
                else (Inr (sort_values (map finish_row (concat all_data))), w1))))"

text \<open>The constructor creates the cache directory; the module-level function builds an
  instance and calls the method.\<close>

definition TesouroDireto_init :: "('c, 't) env \<Rightarrow> path option \<Rightarrow> world \<Rightarrow> path \<times> world" where
  "TesouroDireto_init e cache_dir w =
     (let cd = (case cache_dir of None \<Rightarrow> gettempdir e @ [''td-files''] | Some d \<Rightarrow> d)
      in (cd, mkdir_parents cd w))"

definition get_treasury_data_fn ::
  "('c, 't::linorder) env \<Rightarrow> string list option \<Rightarrow> int \<Rightarrow> int option \<Rightarrow> path option \<Rightarrow> world
     \<Rightarrow> (error + 't price_record list) \<times> world" where
  "get_treasury_data_fn e asset_codes first_year last_year cache_dir w =
     (case TesouroDireto_init e cache_dir w of
        (cd, w1) \<Rightarrow> get_treasury_data e cd asset_codes first_year last_year w1)"

section \<open>The catalog as a shared list object\<close>

text \<open>
  The catalog is one list object of the class. To state what a caller can and cannot
  change, lists live in a store: an address is an index, a new list gets the next one.
  \<^verbatim>\<open>list.copy()\<close> allocates; any mutation of a list replaces the contents at its address.
\<close>

type_synonym store = "string list list"

definition CATALOG :: nat where
  "CATALOG = 0"

definition initial_store :: store where
  "initial_store = [AVAILABLE_ASSETS]"

definition list_copy :: "nat \<Rightarrow> store \<Rightarrow> nat \<times> store" where
  "list_copy a h = (length h, h @ [h ! a])"

definition mutate :: "nat \<Rightarrow> string list \<Rightarrow> store \<Rightarrow> store" where
  "mutate a xs h = (if a < length h then h[a := xs] else h)"

definition TesouroDireto_get_available_assets :: "store \<Rightarrow> nat \<times> store" where
  "TesouroDireto_get_available_assets h = list_copy CATALOG h"

definition get_available_assets :: "store \<Rightarrow> nat \<times> store" where
  "get_available_assets h = list_copy CATALOG h"

text \<open>Validation and defaulting of \<^verbatim>\<open>get_treasury_data\<close>, reading the catalog from the store.\<close>

definition invalid_codes_in :: "store \<Rightarrow> string list \<Rightarrow> string list" where
  "invalid_codes_in h asset_codes = invalid_codes (h ! CATALOG) asset_codes"

definition default_codes_in :: "store \<Rightarrow> string list" where
  "default_codes_in h = (case list_copy CATALOG h of (a, h') \<Rightarrow> h' ! a)"

section \<open>Concrete collaborators for evaluation\<close>

datatype cell = Blank | Number real | Text string | Stamp nat

fun cell_to_numeric :: "cell \<Rightarrow> real option" where
  "cell_to_numeric (Number x) = Some x"
| "cell_to_numeric _ = None"

fun cell_to_datetime :: "cell \<Rightarrow> nat option" where
  "cell_to_datetime (Stamp t) = Some t"
| "cell_to_datetime _ = None"


definition sheet_frame :: "string \<Rightarrow> cell frame" where
  "sheet_frame n =
     (if n = ''LTN_010123'' then
        \<lparr>ncols = 5, rows =
          [[Stamp 20, Number 11, Number 12, Number 900, Number 899],
           [Stamp 10, Number 11, Number 12, Number 0, Number 0],
           [Stamp 5, Text ''x'', Number 12, Number 901, Number 900]]\<rparr>
      else
        \<lparr>ncols = 5, rows =
          [[Stamp 7, Number 13, Number 14, Number 800, Number 799],
           [Text ''n/a'', Number 13, Number 14, Number 801, Number 800],
           [Stamp 3, Number 13, Number 14, Number 802, Number 801]]\<rparr>)"

definition online_env :: "(cell, nat) env" where
  "online_env =
     \<lparr>session_get = (\<lambda>k url. Inr ''workbook''),
      gettempdir = [''tmp''],
      excel_sheet_names = (\<lambda>b. Inr [''LTN_010123'', ''LTN_010121'']),
      read_excel = (\<lambda>b n. Inr (sheet_frame n)),
      to_numeric = cell_to_numeric,
      to_datetime = cell_to_datetime\<rparr>"

definition new_world :: "int \<Rightarrow> world" where
  "new_world y = \<lparr>files = Map.empty, dirs = {}, requests = [], current_year = y\<rparr>"


section \<open>Facts about the string functions\<close>

lemma replace_char:
  "replace [a] new s = concat (map (\<lambda>c. if c = a then new else [c]) s)"
  by (induction s) simp_all

lemma remove_spaces_append:
  "replace '' '' [] (p @ q) = replace '' '' [] p @ replace '' '' [] q"
  by (simp add: replace_char)

lemma digit_not_space: "is_digit c \<Longrightarrow> c \<noteq> CHR '' ''"
  by (auto simp: is_digit_def)

lemma digit_not_newline: "is_digit c \<Longrightarrow> c \<noteq> CHR 0x0A"
  by (auto simp: is_digit_def)

lemma remove_spaces_digits:
  "list_all is_digit q \<Longrightarrow> replace '' '' [] q = q"
  by (induction q) (auto simp: replace_char dest: digit_not_space)

lemma six_elems:
  assumes "length g = 6"
  obtains a b c d e f where "g = [a, b, c, d, e, f]"
proof -
  from assms have "length g = Suc (Suc (Suc (Suc (Suc (Suc 0)))))" by simp
  then show thesis using that by (auto simp: length_Suc_conv)
qed

lemma digit_char_props:
  "k < 10 \<Longrightarrow> is_digit (digit_char k) \<and> digit_val (digit_char k) = k"
proof -
  assume "k < 10"
  then have "k \<in> {0,1,2,3,4,5,6,7,8,9}" by auto
  then show ?thesis
    by (auto simp: digit_char_def is_digit_def digit_val_def)
qed

lemma int_of_two_digits:
  assumes "n < 100"
  shows "int_of_str (two_digits n) = Some n" "list_all is_digit (two_digits n)"
proof -
  have a: "n div 10 < 10" "n mod 10 < 10" using assms by auto
  show "int_of_str (two_digits n) = Some n"
    using digit_char_props[OF a(1)] digit_char_props[OF a(2)]
    by (simp add: int_of_str_def two_digits_def)
  show "list_all is_digit (two_digits n)"
    using digit_char_props[OF a(1)] digit_char_props[OF a(2)]
    by (simp add: two_digits_def)
qed

section \<open>Facts about the pattern search\<close>

lemma match_at_exact:
  assumes "length g = 6" "list_all is_digit g"
  shows "match_at g = Some g"
  using assms by (simp add: match_at_def)

lemma match_at_longer:
  assumes "length g = 6" "list_all is_digit g"
  shows "match_at (c # p @ g) = None"
proof -
  obtain a b c' d e f where g: "g = [a, b, c', d, e, f]"
    using assms(1) by (rule six_elems)
  have f: "f \<noteq> CHR 0x0A" using assms(2) g by (auto dest: digit_not_newline)
  have len: "length (drop 6 (c # p @ g)) = Suc (length p)"
    using assms(1) by simp
  have "drop 6 (c # p @ g) \<noteq> []" using len by (metis length_0_conv nat.distinct(1))
  moreover have "drop 6 (c # p @ g) \<noteq> [CHR 0x0A]"
  proof (cases p)
    case Nil
    then show ?thesis using g f by simp
  next
    case (Cons x xs)
    then have "length (drop 6 (c # p @ g)) \<ge> 2" using len by simp
    then show ?thesis by (metis One_nat_def Suc_1 length_Cons list.size(3) not_less_eq_eq order_refl)
  qed
  ultimately show ?thesis by (simp add: match_at_def)
qed

lemma re_search_append:
  assumes "length g = 6" "list_all is_digit g"
  shows "re_search (p @ g) = Some g"
proof (induction p)
  case Nil
  obtain a b c d e f where g: "g = [a, b, c, d, e, f]"
    using assms(1) by (rule six_elems)
  show ?case using match_at_exact[OF assms] by (simp add: g)
next
  case (Cons c p)
  then show ?case using match_at_longer[OF assms] by simp
qed






lemma get_maturity_date_suffix:
  assumes "d < 100" "m < 100" "yy < 100"
  shows "get_maturity_date (p @ two_digits d @ two_digits m @ two_digits yy) =
     (case mk_date (if yy \<le> 50 then yy + 2000 else yy + 1900) m d of
        Inl e \<Rightarrow> None | Inr dt \<Rightarrow> Some dt)"
proof -
  let ?g = "two_digits d @ two_digits m @ two_digits yy"
  have dg: "list_all is_digit ?g" "length ?g = 6"
    using int_of_two_digits(2)[OF assms(1)] int_of_two_digits(2)[OF assms(2)]
      int_of_two_digits(2)[OF assms(3)] by (simp_all add: two_digits_def)
  have "replace '' '' [] (p @ ?g) = replace '' '' [] p @ ?g"
    using remove_spaces_append[of p ?g] remove_spaces_digits[OF dg(1)] by simp
  then have rs: "re_search (replace '' '' [] (p @ ?g)) = Some ?g"
    using re_search_append[OF dg(2) dg(1)] by simp
  have t: "take 2 ?g = two_digits d" "take 2 (drop 2 ?g) = two_digits m"
    "take 2 (drop 4 ?g) = two_digits yy" by (simp_all add: two_digits_def)
  show ?thesis
    unfolding get_maturity_date_def rs
    by (simp only: option.case t int_of_two_digits(1)[OF assms(1)]
        int_of_two_digits(1)[OF assms(2)] int_of_two_digits(1)[OF assms(3)])
qed



section \<open>The code normalizer on the catalog\<close>

text \<open>
  Claim C1, as the specification states it, fails: normalizing and then denormalizing
  the catalog code \<open>NTN-B_Principal\<close> does not give the code back. The underscore
  becomes a space, as the docstring of \<^verbatim>\<open>_denormalize_asset_code\<close> announces.
\<close>

theorem roundtrip_counterexample:
  "''NTN-B_Principal'' \<in> set AVAILABLE_ASSETS
   \<and> denormalize_asset_code (normalize_asset_code ''NTN-B_Principal'') = ''NTN-B Principal''
   \<and> denormalize_asset_code (normalize_asset_code ''NTN-B_Principal'') \<noteq> ''NTN-B_Principal''"
  by (simp add: AVAILABLE_ASSETS_def denormalize_asset_code_def normalize_asset_code_def)

text \<open>
  Claim C1, amended: for every code of the catalog other than \<open>NTN-B_Principal\<close>,
  normalizing and then denormalizing returns the code unchanged; for
  \<open>NTN-B_Principal\<close> the result is the display form \<open>NTN-B Principal\<close>.
\<close>

theorem roundtrip_catalog:
  "\<forall>c \<in> set AVAILABLE_ASSETS.
     denormalize_asset_code (normalize_asset_code c)
       = (if c = ''NTN-B_Principal'' then ''NTN-B Principal'' else c)"
  by (simp add: AVAILABLE_ASSETS_def denormalize_asset_code_def normalize_asset_code_def)

theorem roundtrip_catalog_witness:
  "''NTN-C'' \<in> set AVAILABLE_ASSETS
   \<and> denormalize_asset_code (normalize_asset_code ''NTN-C'') = ''NTN-C''"
proof -
  have m: "''NTN-C'' \<in> set AVAILABLE_ASSETS" by (simp add: AVAILABLE_ASSETS_def)
  show ?thesis using m roundtrip_catalog[rule_format, OF m] by simp
qed

section \<open>The maturity parser\<close>

text \<open>
  Claim C2: the maturity date of \<open>LTN 010123\<close> is 2023-01-01, that of
  \<open>NTN-B Principal 150545\<close> is 2045-05-15, and \<open>LTN 311399\<close> has none, its month being
  13. In general a code that ends in the two digits of a day, of a month and of a year
  \<open>yy\<close> is read in the year \<open>2000 + yy\<close> when \<open>yy \<le> 50\<close> and in \<open>1900 + yy\<close> when
  \<open>yy > 50\<close>; the date is returned when the calendar has it.
\<close>

theorem maturity_date_examples:
  "get_maturity_date ''LTN 010123'' = Some \<lparr>year = 2023, month = 1, day = 1\<rparr>
   \<and> get_maturity_date ''NTN-B Principal 150545'' = Some \<lparr>year = 2045, month = 5, day = 15\<rparr>
   \<and> get_maturity_date ''LTN 311399'' = None
   \<and> (\<forall>p d m yy. d < 100 \<and> m < 100 \<and> yy \<le> 50 \<longrightarrow>
        get_maturity_date (p @ two_digits d @ two_digits m @ two_digits yy)
          = (case mk_date (yy + 2000) m d of Inl e \<Rightarrow> None | Inr dt \<Rightarrow> Some dt))
   \<and> (\<forall>p d m yy. d < 100 \<and> m < 100 \<and> 50 < yy \<and> yy < 100 \<longrightarrow>
        get_maturity_date (p @ two_digits d @ two_digits m @ two_digits yy)
          = (case mk_date (yy + 1900) m d of Inl e \<Rightarrow> None | Inr dt \<Rightarrow> Some dt))"
proof (intro conjI allI impI)
  show "get_maturity_date ''LTN 010123'' = Some \<lparr>year = 2023, month = 1, day = 1\<rparr>"
    by code_simp
  show "get_maturity_date ''NTN-B Principal 150545'' = Some \<lparr>year = 2045, month = 5, day = 15\<rparr>"
    by code_simp
  show "get_maturity_date ''LTN 311399'' = None"
    by code_simp
next
  fix p :: string and d m yy :: nat
  assume "d < 100 \<and> m < 100 \<and> yy \<le> 50"
  then show "get_maturity_date (p @ two_digits d @ two_digits m @ two_digits yy)
      = (case mk_date (yy + 2000) m d of Inl e \<Rightarrow> None | Inr dt \<Rightarrow> Some dt)"
    using get_maturity_date_suffix[of d m yy p] by simp
next
  fix p :: string and d m yy :: nat
  assume "d < 100 \<and> m < 100 \<and> 50 < yy \<and> yy < 100"
  then show "get_maturity_date (p @ two_digits d @ two_digits m @ two_digits yy)
      = (case mk_date (yy + 1900) m d of Inl e \<Rightarrow> None | Inr dt \<Rightarrow> Some dt)"
    using get_maturity_date_suffix[of d m yy p] by simp
qed

theorem maturity_date_examples_witness:
  "(15::nat) < 100 \<and> (5::nat) < 100 \<and> (45::nat) \<le> 50 \<and> (50::nat) < 99 \<and> (99::nat) < 100
   \<and> get_maturity_date (''NTN-B Principal '' @ two_digits 15 @ two_digits 5 @ two_digits 45)
       = Some \<lparr>year = 2045, month = 5, day = 15\<rparr>
   \<and> get_maturity_date (''LTN '' @ two_digits 15 @ two_digits 5 @ two_digits 99)
       = Some \<lparr>year = 1999, month = 5, day = 15\<rparr>"
proof -
  have a: "(15::nat) < 100 \<and> (5::nat) < 100 \<and> (45::nat) \<le> 50" by simp
  have b: "(15::nat) < 100 \<and> (5::nat) < 100 \<and> (50::nat) < 99 \<and> (99::nat) < 100" by simp
  have m1: "mk_date (45 + 2000) 5 15 = Inr \<lparr>year = 2045, month = 5, day = 15\<rparr>"
    by (simp add: mk_date_def days_in_month_def)
  have m2: "mk_date (99 + 1900) 5 15 = Inr \<lparr>year = 1999, month = 5, day = 15\<rparr>"
    by (simp add: mk_date_def days_in_month_def)
  from maturity_date_examples
  have "get_maturity_date (''NTN-B Principal '' @ two_digits 15 @ two_digits 5 @ two_digits 45)
      = (case mk_date (45 + 2000) 5 15 of Inl e \<Rightarrow> None | Inr dt \<Rightarrow> Some dt)"
    and "get_maturity_date (''LTN '' @ two_digits 15 @ two_digits 5 @ two_digits 99)
      = (case mk_date (99 + 1900) 5 15 of Inl e \<Rightarrow> None | Inr dt \<Rightarrow> Some dt)"
    using a b by blast+
  then show ?thesis by (simp only: m1 m2 sum.case) simp
qed




section \<open>The file cache and fetcher\<close>



lemma mkdir_frame:
  "files (mkdir_parents p w) = files w" "requests (mkdir_parents p w) = requests w"
  "current_year (mkdir_parents p w) = current_year w"
  by (simp_all add: mkdir_parents_def)













section \<open>The cleaner\<close>

lemma clean_data_rows:
  assumes "clean_data e df = Inr out" "r \<in> set out"
  shows "\<not> has_missing r \<and> price_bid r \<noteq> Some 0 \<and> r \<in> coerce_row e ` set (rows df)"
  using assms by (auto simp: clean_data_def split: if_splits)

text \<open>
  Claim C5: every row of the table that \<^verbatim>\<open>_clean_data\<close> returns has its date and its
  four numbers present, and a bid price other than zero; each such row is the coercion
  of a row of the input, so a row with a cell that does not parse is dropped.
\<close>

theorem clean_data_invariant:
  assumes "clean_data e df = Inr out" "r \<in> set out"
  shows "ref_date r \<noteq> None \<and> yield_bid r \<noteq> None \<and> yield_ask r \<noteq> None
     \<and> price_bid r \<noteq> None \<and> price_ask r \<noteq> None \<and> price_bid r \<noteq> Some 0
     \<and> (\<exists>raw \<in> set (rows df). r = coerce_row e raw)"
  using clean_data_rows[OF assms] by (auto simp: has_missing_def)

theorem clean_data_invariant_witness:
  "clean_data online_env (sheet_frame ''LTN_010123'')
     = Inr [\<lparr>ref_date = Some 20, yield_bid = Some 11, yield_ask = Some 12,
             price_bid = Some 900, price_ask = Some 899\<rparr>]
   \<and> price_bid \<lparr>ref_date = Some (20::nat), yield_bid = Some 11, yield_ask = Some 12,
             price_bid = Some 900, price_ask = Some 899\<rparr> \<noteq> Some 0"
proof -
  let ?r = "\<lparr>ref_date = Some (20::nat), yield_bid = Some 11, yield_ask = Some 12,
             price_bid = Some 900, price_ask = Some 899\<rparr>"
  have c: "clean_data online_env (sheet_frame ''LTN_010123'') = Inr [?r]"
    by (simp add: clean_data_def sheet_frame_def online_env_def empty_frame_def
        coerce_row_def has_missing_def)
  have m: "?r \<in> set [?r]" by simp
  show ?thesis using clean_data_invariant[OF c m] c by simp
qed

lemma tag_row_ref_date: "ref_date (tag_row n r) = ref_date r"
  by (simp add: tag_row_def)

lemma process_sheets_dates:
  "process_sheets e content ns = Inr all_data \<Longrightarrow> rs \<in> set all_data \<Longrightarrow> r \<in> set rs
     \<Longrightarrow> ref_date r \<noteq> None"
proof (induction ns arbitrary: all_data)
  case Nil
  then show ?case by simp
next
  case (Cons n ns)
  show ?case
  proof (cases "read_excel e content n")
    case (Inl err)
    then show ?thesis using Cons.prems by simp
  next
    case (Inr df)
    show ?thesis
    proof (cases "empty_frame df")
      case True
      then show ?thesis using Cons Inr by simp
    next
      case False
      then obtain cleaned rest where c: "clean_data e df = Inr cleaned"
        and p: "process_sheets e content ns = Inr rest"
        and a: "all_data = (if cleaned \<noteq> [] then map (tag_row n) cleaned # rest else rest)"
        using Cons.prems(1) Inr by (auto split: sum.splits)
      show ?thesis
      proof (cases "rs \<in> set rest")
        case True
        then show ?thesis using Cons.IH[OF p] Cons.prems(3) by simp
      next
        case False
        then have "rs = map (tag_row n) cleaned" using a Cons.prems(2) by (auto split: if_splits)
        then obtain r0 where "r0 \<in> set cleaned" "r = tag_row n r0" using Cons.prems(3) by auto
        then show ?thesis using clean_data_rows[OF c] by (auto simp: has_missing_def tag_row_ref_date)
      qed
    qed
  qed
qed

lemma read_excel_file_dates:
  assumes "r \<in> set (read_excel_file e w p)"
  shows "ref_date r \<noteq> None"
proof (cases "files w p")
  case None
  then show ?thesis using assms by (simp add: read_excel_file_def)
next
  case (Some content)
  show ?thesis
  proof (cases "excel_sheet_names e content")
    case (Inl err)
    then show ?thesis using assms Some by (simp add: read_excel_file_def)
  next
    case names: (Inr names)
    show ?thesis
    proof (cases "process_sheets e content names")
      case (Inl err)
      then show ?thesis using assms Some names by (simp add: read_excel_file_def)
    next
      case (Inr all_data)
      then have "r \<in> set (concat all_data)"
        using assms Some names by (simp add: read_excel_file_def)
      then obtain rs where "rs \<in> set all_data" "r \<in> set rs" by auto
      then show ?thesis using process_sheets_dates[OF Inr] by blast
    qed
  qed
qed

lemma finish_row_fields:
  "ref_date (finish_row r) = ref_date r"
  "asset_code (finish_row r) = denormalize_asset_code (asset_code r)"
  by (simp_all add: finish_row_def)

section \<open>The orchestrator\<close>

lemma download_years_empty: "download_years e cd a [] w = ([], w)"
  by simp

lemma download_assets_no_years: "download_assets e cd as [] w = ([], w)"
  by (induction as) simp_all

lemma get_treasury_data_invalid:
  assumes "c \<in> set cs" "c \<notin> set AVAILABLE_ASSETS"
  shows "get_treasury_data e cd (Some cs) fy ly w = (Inl ValueError, w)"
proof -
  have "c \<in> set (invalid_codes AVAILABLE_ASSETS cs)" using assms by (simp add: invalid_codes_def)
  then have "invalid_codes AVAILABLE_ASSETS cs \<noteq> []" by auto
  then show ?thesis by (simp add: get_treasury_data_def Let_def default_asset_codes_def)
qed

lemma valid_codes:
  assumes "\<forall>cs. codes = Some cs \<longrightarrow> set cs \<subseteq> set AVAILABLE_ASSETS"
  shows "invalid_codes AVAILABLE_ASSETS (default_asset_codes codes) = []"
  using assms
  by (cases codes) (auto simp: invalid_codes_def filter_empty_conv default_asset_codes_def)

lemma get_treasury_data_valid:
  assumes "\<forall>cs. codes = Some cs \<longrightarrow> set cs \<subseteq> set AVAILABLE_ASSETS"
  shows "get_treasury_data e cd codes fy ly w =
     (case download_assets e cd (default_asset_codes codes)
        [clamp_first_year fy..default_last_year ly w] w of
        (all_files, w1) \<Rightarrow>
          if all_files = [] then (Inr [], w1)
          else if filter (\<lambda>df. df \<noteq> []) (map (read_excel_file e w1) all_files) = []
            then (Inr [], w1)
            else (Inr (sort_values (map finish_row (concat
                    (filter (\<lambda>df. df \<noteq> []) (map (read_excel_file e w1) all_files))))), w1))"
  using valid_codes[OF assms]
  by (simp add: get_treasury_data_def Let_def split: prod.splits)

lemma get_treasury_data_result:
  assumes "get_treasury_data e cd codes fy ly w = (Inr ds, w')"
  shows "ds = [] \<or> (\<exists>fs. ds = sort_values (map finish_row (concat
            (filter (\<lambda>df. df \<noteq> []) (map (read_excel_file e w') fs)))))"
  using assms
  by (auto simp: get_treasury_data_def Let_def split: if_splits prod.splits)

lemma sort_values_props:
  "set (sort_values rs) = set rs" "sorted (map sort_key_of (sort_values rs))"
  by (simp_all add: sort_values_def)

text \<open>
  Claim C7: the dataset that \<^verbatim>\<open>get_treasury_data\<close> returns is sorted by asset code and
  then by date: of two consecutive rows, both dated, the first has the smaller asset
  code, or the same asset code and a date that is not later.
\<close>

theorem dataset_sorted:
  assumes "get_treasury_data e cd codes fy ly w = (Inr ds, w')" "Suc i < length ds"
  shows "\<exists>t1 t2. ref_date (ds ! i) = Some t1 \<and> ref_date (ds ! Suc i) = Some t2
     \<and> (asset_code (ds ! i) < asset_code (ds ! Suc i)
        \<or> (asset_code (ds ! i) = asset_code (ds ! Suc i) \<and> t1 \<le> t2))"
proof -
  from get_treasury_data_result[OF assms(1)] assms(2) obtain fs where
    ds: "ds = sort_values (map finish_row (concat
            (filter (\<lambda>df. df \<noteq> []) (map (read_excel_file e w') fs))))"
    by auto
  have dates: "ref_date r \<noteq> None" if "r \<in> set ds" for r
  proof -
    from that obtain r0 p where "r = finish_row r0" "r0 \<in> set (read_excel_file e w' p)"
      unfolding ds sort_values_props(1) by auto
    then show ?thesis using read_excel_file_dates[of r0 e w' p] by (simp add: finish_row_fields)
  qed
  have "ds ! i \<in> set ds" "ds ! Suc i \<in> set ds" using assms(2) by simp_all
  then obtain t1 t2 where t: "ref_date (ds ! i) = Some t1" "ref_date (ds ! Suc i) = Some t2"
    using dates by fastforce
  have "sorted (map sort_key_of ds)" unfolding ds by (rule sort_values_props(2))
  then have "map sort_key_of ds ! i \<le> map sort_key_of ds ! Suc i"
    using assms(2) by (intro sorted_nth_mono) simp_all
  then have "sort_key_of (ds ! i) \<le> sort_key_of (ds ! Suc i)" using assms(2) by simp
  then have "asset_code (ds ! i) < asset_code (ds ! Suc i)
        \<or> (asset_code (ds ! i) = asset_code (ds ! Suc i) \<and> t1 \<le> t2)"
    by (auto simp: sort_key_of_def t less_eq_prod_def)
  then show ?thesis using t by blast
qed

lemma run_online:
  "fst (get_treasury_data online_env [''cache''] (Some [''LTN'']) 2020 (Some 2020) (new_world 2026))
     = Inr [\<lparr>ref_date = Some 3, yield_bid = Some 13, yield_ask = Some 14,
              price_bid = Some 802, price_ask = Some 801, asset_code = ''LTN 010121'',
              maturity_date = Some \<lparr>year = 2021, month = 1, day = 1\<rparr>\<rparr>,
            \<lparr>ref_date = Some 7, yield_bid = Some 13, yield_ask = Some 14,
              price_bid = Some 800, price_ask = Some 799, asset_code = ''LTN 010121'',
              maturity_date = Some \<lparr>year = 2021, month = 1, day = 1\<rparr>\<rparr>,
            \<lparr>ref_date = Some 20, yield_bid = Some 11, yield_ask = Some 12,
              price_bid = Some 900, price_ask = Some 899, asset_code = ''LTN 010123'',
              maturity_date = Some \<lparr>year = 2023, month = 1, day = 1\<rparr>\<rparr>]"
  by code_simp

theorem dataset_sorted_witness:
  "\<exists>ds. fst (get_treasury_data online_env [''cache''] (Some [''LTN'']) 2020 (Some 2020)
            (new_world 2026)) = Inr ds
     \<and> Suc 1 < length ds
     \<and> ref_date (ds ! 1) = Some 7 \<and> ref_date (ds ! Suc 1) = Some 20
     \<and> asset_code (ds ! 1) = ''LTN 010121'' \<and> asset_code (ds ! Suc 1) = ''LTN 010123''
     \<and> (asset_code (ds ! 1) < asset_code (ds ! Suc 1)
         \<or> asset_code (ds ! 1) = asset_code (ds ! Suc 1) \<and> (7::nat) \<le> 20)"
proof -
  let ?run = "get_treasury_data online_env [''cache''] (Some [''LTN'']) 2020 (Some 2020)
      (new_world 2026)"
  obtain ds where ds: "fst ?run = Inr ds" and len: "Suc 1 < length ds"
    and f: "ref_date (ds ! 1) = Some 7" "ref_date (ds ! Suc 1) = Some 20"
      "asset_code (ds ! 1) = ''LTN 010121''" "asset_code (ds ! Suc 1) = ''LTN 010123''"
    using run_online by simp
  have eq: "?run = (Inr ds, snd ?run)" using ds by (simp add: prod_eq_iff)
  from dataset_sorted[OF eq len] f
  have "asset_code (ds ! 1) < asset_code (ds ! Suc 1)
      \<or> asset_code (ds ! 1) = asset_code (ds ! Suc 1) \<and> (7::nat) \<le> 20"
    by auto
  then show ?thesis using ds len f by blast
qed

lemma init_frame:
  "files (snd (TesouroDireto_init e cdo w)) = files w"
  "requests (snd (TesouroDireto_init e cdo w)) = requests w"
  "current_year (snd (TesouroDireto_init e cdo w)) = current_year w"
  by (simp_all add: TesouroDireto_init_def Let_def mkdir_frame)

lemma get_treasury_data_fn_unfold:
  "get_treasury_data_fn e codes fy ly cdo w
     = get_treasury_data e (fst (TesouroDireto_init e cdo w)) codes fy ly
         (snd (TesouroDireto_init e cdo w))"
  by (simp add: get_treasury_data_fn_def split: prod.splits)

text \<open>
  Claim C6: a call of \<^verbatim>\<open>get_treasury_data\<close> whose list of asset codes holds a code
  that is not in the catalog raises \<^verbatim>\<open>ValueError\<close> and leaves the world as it was: no
  request is sent, no file and no directory is created. Through the module-level
  function the same holds for the requests and the files; the constructor has created
  the cache directory itself before.
\<close>

theorem invalid_code_fails_fast:
  assumes "c \<in> set cs" "c \<notin> set AVAILABLE_ASSETS"
  shows "get_treasury_data e cd (Some cs) fy ly w = (Inl ValueError, w)
     \<and> fst (get_treasury_data_fn e (Some cs) fy ly cdo w) = Inl ValueError
     \<and> requests (snd (get_treasury_data_fn e (Some cs) fy ly cdo w)) = requests w
     \<and> files (snd (get_treasury_data_fn e (Some cs) fy ly cdo w)) = files w
     \<and> snd (get_treasury_data_fn e (Some cs) fy ly cdo w) = snd (TesouroDireto_init e cdo w)"
proof -
  have a: "get_treasury_data e cd (Some cs) fy ly w = (Inl ValueError, w)"
    using assms by (rule get_treasury_data_invalid)
  have b: "get_treasury_data e (fst (TesouroDireto_init e cdo w)) (Some cs) fy ly
      (snd (TesouroDireto_init e cdo w)) = (Inl ValueError, snd (TesouroDireto_init e cdo w))"
    using assms by (rule get_treasury_data_invalid)
  show ?thesis
    unfolding get_treasury_data_fn_unfold b using a by (simp add: init_frame)
qed

theorem invalid_code_fails_fast_witness:
  "''LTNX'' \<in> set [''LTN'', ''LTNX''] \<and> ''LTNX'' \<notin> set AVAILABLE_ASSETS
   \<and> get_treasury_data online_env [''cache''] (Some [''LTN'', ''LTNX'']) 2020 (Some 2021)
       (new_world 2026) = (Inl ValueError, new_world 2026)"
proof -
  have a: "''LTNX'' \<in> set [''LTN'', ''LTNX'']" by simp
  have b: "''LTNX'' \<notin> set AVAILABLE_ASSETS" by (simp add: AVAILABLE_ASSETS_def)
  show ?thesis using a b invalid_code_fails_fast[OF a b] by blast
qed









text \<open>
  Claim C10: with valid asset codes and a first year, once clamped, above the last
  year, once defaulted, the range of years is empty: \<^verbatim>\<open>get_treasury_data\<close> returns the
  empty dataset and leaves the world as it was, so it sends no request and creates no
  file and no directory. Through the module-level function the requests and the files
  are unchanged as well.
\<close>

theorem empty_year_range:
  assumes "\<forall>cs. codes = Some cs \<longrightarrow> set cs \<subseteq> set AVAILABLE_ASSETS"
    and "default_last_year ly w < clamp_first_year fy"
  shows "[clamp_first_year fy..default_last_year ly w] = []
     \<and> get_treasury_data e cd codes fy ly w = (Inr [], w)
     \<and> fst (get_treasury_data_fn e codes fy ly cdo w) = Inr []
     \<and> requests (snd (get_treasury_data_fn e codes fy ly cdo w)) = requests w
     \<and> files (snd (get_treasury_data_fn e codes fy ly cdo w)) = files w"
proof -
  have r: "[clamp_first_year fy..default_last_year ly w] = []" using assms(2) by simp
  have m: "get_treasury_data e cd' codes fy ly w' = (Inr [], w')"
    if "default_last_year ly w' = default_last_year ly w" for cd' w'
  proof -
    have "[clamp_first_year fy..default_last_year ly w'] = []" using r that by simp
    then show ?thesis
      unfolding get_treasury_data_valid[OF assms(1)] by (simp add: download_assets_no_years)
  qed
  have i: "default_last_year ly (snd (TesouroDireto_init e cdo w)) = default_last_year ly w"
    by (cases ly) (simp_all add: default_last_year_def init_frame)
  show ?thesis
    using r m[of w cd] m[OF i] by (simp add: get_treasury_data_fn_unfold init_frame)
qed

theorem empty_year_range_witness:
  "''LTN'' \<in> set AVAILABLE_ASSETS \<and> ''NTN-B'' \<in> set AVAILABLE_ASSETS
   \<and> default_last_year (Some 2020) (new_world 2026) < clamp_first_year 2022
   \<and> get_treasury_data online_env [''cache''] (Some [''LTN'', ''NTN-B'']) 2022 (Some 2020)
       (new_world 2026) = (Inr [], new_world 2026)"
proof -
  have v: "\<forall>cs. Some [''LTN'', ''NTN-B''] = Some cs \<longrightarrow> set cs \<subseteq> set AVAILABLE_ASSETS"
    by (simp add: AVAILABLE_ASSETS_def)
  have y: "default_last_year (Some 2020) (new_world 2026) < clamp_first_year 2022"
    by (simp add: default_last_year_def clamp_first_year_def FIRST_YEAR_def)
  have m: "''LTN'' \<in> set AVAILABLE_ASSETS \<and> ''NTN-B'' \<in> set AVAILABLE_ASSETS"
    by (simp add: AVAILABLE_ASSETS_def)
  show ?thesis
    using m y empty_year_range[OF v y, where e = online_env and cd = "[''cache'']"] by simp
qed

section \<open>The catalog and its copies\<close>

lemma list_copy_props:
  assumes "a < length h"
  shows "fst (list_copy a h) = length h" "snd (list_copy a h) = h @ [h ! a]"
    "snd (list_copy a h) ! fst (list_copy a h) = h ! a"
    "b < length h \<Longrightarrow> snd (list_copy a h) ! b = h ! b"
  by (simp_all add: list_copy_def nth_append)

lemma mutate_other:
  "b \<noteq> a \<Longrightarrow> mutate a ys h ! b = h ! b"
  by (simp add: mutate_def)

lemma mutate_length: "length (mutate a ys h) = length h"
  by (simp add: mutate_def)

lemma default_codes_in_eq: "default_codes_in h = h ! CATALOG"
  by (simp add: default_codes_in_def list_copy_def)

lemma get_available_assets_eq:
  "get_available_assets h = (length h, h @ [h ! CATALOG])"
  "snd (get_available_assets h) ! fst (get_available_assets h) = h ! CATALOG"
  by (simp_all add: get_available_assets_def list_copy_def)

text \<open>
  Claim C9: \<^verbatim>\<open>get_available_assets\<close>, the function and the method alike, returns a new
  list with the contents of the catalog: its address is that of no list that existed,
  so it is not the catalog, and no existing list is changed. Whatever the caller then
  writes into the returned list, the catalog keeps its contents, validation rejects
  the same codes, the default asset codes are the same, and the next call returns the
  catalog's contents again in another new list.
\<close>

theorem get_available_assets_fresh_copy:
  assumes "CATALOG < length h"
  shows "TesouroDireto_get_available_assets h = get_available_assets h
     \<and> (case get_available_assets h of
          (a, h') \<Rightarrow>
            a \<noteq> CATALOG \<and> \<not> a < length h \<and> a < length h'
            \<and> h' ! a = h ! CATALOG
            \<and> (\<forall>b < length h. h' ! b = h ! b)
            \<and> (\<forall>ys. mutate a ys h' ! CATALOG = h ! CATALOG
                 \<and> (\<forall>cs. invalid_codes_in (mutate a ys h') cs = invalid_codes_in h cs)
                 \<and> default_codes_in (mutate a ys h') = default_codes_in h
                 \<and> (case get_available_assets (mutate a ys h') of
                      (a2, h2) \<Rightarrow> a2 \<noteq> a \<and> a2 \<noteq> CATALOG \<and> h2 ! a2 = h ! CATALOG)))"
proof -
  let ?a = "length h" and ?h' = "h @ [h ! CATALOG]"
  have g: "get_available_assets h = (?a, ?h')"
    by (simp add: get_available_assets_def list_copy_def)
  have ne: "?a \<noteq> CATALOG" using assms by simp
  have k: "mutate ?a ys ?h' ! CATALOG = h ! CATALOG" for ys
    using assms ne by (simp add: mutate_other nth_append)
  have l: "CATALOG < length (mutate ?a ys ?h')" for ys
    using assms by (simp add: mutate_length)
  have d: "default_codes_in (mutate ?a ys ?h') = default_codes_in h" for ys
    using k[of ys] by (simp only: default_codes_in_eq)
  have n: "case get_available_assets (mutate ?a ys ?h') of
      (a2, h2) \<Rightarrow> a2 \<noteq> ?a \<and> a2 \<noteq> CATALOG \<and> h2 ! a2 = h ! CATALOG" for ys
  proof -
    let ?m = "mutate ?a ys ?h'"
    have len: "length ?m = Suc (length h)" by (simp add: mutate_length)
    have "snd (get_available_assets ?m) ! fst (get_available_assets ?m) = h ! CATALOG"
      using k[of ys] by (simp only: get_available_assets_eq(2))
    moreover have "fst (get_available_assets ?m) = Suc (length h)"
      using len by (simp only: get_available_assets_eq(1) fst_conv)
    ultimately show ?thesis using assms by (simp add: case_prod_beta)
  qed
  show ?thesis
    unfolding g
    using assms ne k d n
    by (simp add: TesouroDireto_get_available_assets_def list_copy_def nth_append
        invalid_codes_in_def)
qed

theorem get_available_assets_fresh_copy_witness:
  "CATALOG < length initial_store
   \<and> get_available_assets initial_store = (1, [AVAILABLE_ASSETS, AVAILABLE_ASSETS])
   \<and> mutate 1 [''XYZ''] [AVAILABLE_ASSETS, AVAILABLE_ASSETS] ! CATALOG = AVAILABLE_ASSETS
   \<and> invalid_codes_in (mutate 1 [''XYZ''] [AVAILABLE_ASSETS, AVAILABLE_ASSETS]) [''XYZ'', ''LTN'']
       = invalid_codes_in initial_store [''XYZ'', ''LTN'']"
proof -
  have a: "CATALOG < length initial_store" by (simp add: CATALOG_def initial_store_def)
  have g: "get_available_assets initial_store = (1, [AVAILABLE_ASSETS, AVAILABLE_ASSETS])"
    by (simp add: get_available_assets_def list_copy_def initial_store_def CATALOG_def)
  have i: "initial_store ! CATALOG = AVAILABLE_ASSETS"
    by (simp add: CATALOG_def initial_store_def)
  from get_available_assets_fresh_copy[OF a]
  have "\<forall>ys. mutate 1 ys [AVAILABLE_ASSETS, AVAILABLE_ASSETS] ! CATALOG = initial_store ! CATALOG
      \<and> (\<forall>cs. invalid_codes_in (mutate 1 ys [AVAILABLE_ASSETS, AVAILABLE_ASSETS]) cs
            = invalid_codes_in initial_store cs)"
    unfolding g by simp
  then show ?thesis using a g i by simp
qed

end
